theory Spec2Isabelle
  imports Complex_Main "HOL-Library.Sublist"
begin

section \<open>Python strings\<close>

text \<open>
  A Python \<^verbatim>\<open>str\<close> is modelled as a \<^typ>\<open>string\<close>. \<^verbatim>\<open>str.lower()\<close> and
  \<^verbatim>\<open>str.strip()\<close> are modelled on ASCII: \<open>lower\<close> maps \<open>A\<close>..\<open>Z\<close> to \<open>a\<close>..\<open>z\<close> and leaves
  every other character as it is, \<open>strip\<close> removes the ASCII white space of
  \<^verbatim>\<open>str.isspace\<close> (codes 9 to 13, 28 to 32) from both ends.
\<close>

definition lower_char :: "char \<Rightarrow> char" where
  "lower_char c =
     (let n = (of_char c :: nat)
      in if 65 \<le> n \<and> n \<le> 90 then char_of (n + 32) else c)"

definition lower :: "string \<Rightarrow> string" where
  "lower s = map lower_char s"

definition isspace :: "char \<Rightarrow> bool" where
  "isspace c =
     (let n = (of_char c :: nat)
      in (9 \<le> n \<and> n \<le> 13) \<or> (28 \<le> n \<and> n \<le> 32))"

definition strip :: "string \<Rightarrow> string" where
  "strip s = rev (dropWhile isspace (rev (dropWhile isspace s)))"

section \<open>gg\_api\_core/utils.py: the client factory\<close>

text \<open>
  Exceptions are values. \<open>ValueError msg\<close> is the configuration error of the factory;
  \<open>Exception msg\<close> stands for any other exception, \<open>msg\<close> being its \<^verbatim>\<open>str(e)\<close>.
  The remaining constructors are the exceptions of the release scripts.
\<close>

datatype py_exn =
    ValueError string
  | TypeError
  | KeyError
  | IndexError
  | AttributeError
  | JSONDecodeError
  | OSError
  | EOFError
  | Exception string

fun exn_str :: "py_exn \<Rightarrow> string" where
  "exn_str (ValueError m) = m"
| "exn_str (Exception m) = m"
| "exn_str _ = []"

text \<open>
  The class \<^verbatim>\<open>GitGuardianClient\<close> lives in \<^verbatim>\<open>client.py\<close>, outside the modelled sources.
  Its constructor is a parameter of the factory: it receives the keyword arguments of
  the call (\<open>use_oauth = None\<close> when the call does not pass it) and either raises or
  returns an object of an arbitrary type \<open>'c\<close>. The factory then sets the attribute
  \<^verbatim>\<open>server_name\<close> on that object.
\<close>

record kwargs =
  api_key :: "string option"
  api_url :: "string option"
  use_oauth :: "bool option"

record 'c client =
  obj :: 'c
  server_name :: "string option"

datatype log_level = DEBUG | ERROR | EXCEPTION

datatype gg_event =
    Log log_level string
  | Construct kwargs

type_synonym environ = "string \<rightharpoonup> string"

text \<open>\<^verbatim>\<open>os.environ.get(name, default)\<close>\<close>

definition environ_get :: "environ \<Rightarrow> string \<Rightarrow> string \<Rightarrow> string" where
  "environ_get env name dflt = (case env name of None \<Rightarrow> dflt | Some v \<Rightarrow> v)"

text \<open>\<^verbatim>\<open>os.environ.get("GITGUARDIAN_AUTH_METHOD", "web").lower()\<close>\<close>

definition auth_method_of :: "environ \<Rightarrow> string" where
  "auth_method_of env = lower (environ_get env ''GITGUARDIAN_AUTH_METHOD'' ''web'')"

definition key_preview :: "string \<Rightarrow> string" where
  "key_preview k = (if length k > 4 then take 4 k @ ''...'' else ''***'')"

text \<open>The branch on \<^verbatim>\<open>if api_url:\<close>; \<^verbatim>\<open>None\<close> and the empty string are false.\<close>

definition log_api_url :: "string option \<Rightarrow> gg_event" where
  "log_api_url u =
     (case u of
        None \<Rightarrow> Log DEBUG ''GITGUARDIAN_API_URL not set, will use default''
      | Some v \<Rightarrow>
          if v \<noteq> [] then Log DEBUG (''GITGUARDIAN_API_URL environment variable is set: '' @ v)
          else Log DEBUG ''GITGUARDIAN_API_URL not set, will use default'')"

definition unsupported_msg :: "string \<Rightarrow> string" where
  "unsupported_msg m =
     ''Unsupported authentication method: '' @ m @
     ''. Supported methods: 'token', 'web'' @ [CHR 0x27]"

definition missing_key_msg :: string where
  "missing_key_msg =
     ''GITGUARDIAN_API_KEY environment variable must be set for token authentication''"

text \<open>
  The \<^verbatim>\<open>try\<close> block of either branch: call the constructor, set \<^verbatim>\<open>server_name\<close>, log and
  return; on an exception log it and re-raise. \<open>how\<close> is the word in which the log lines
  of the two branches differ (\<^verbatim>\<open>token\<close>, \<^verbatim>\<open>OAuth\<close>).
\<close>

definition construct_client ::
  "(kwargs \<Rightarrow> py_exn + 'c) \<Rightarrow> kwargs \<Rightarrow> string option \<Rightarrow> string \<Rightarrow>
     gg_event list \<times> (py_exn + 'c client)" where
  "construct_client GitGuardianClient kw sname how =
     (case GitGuardianClient kw of
        Inr c \<Rightarrow>
          ([Construct kw,
            Log DEBUG (''GitGuardian client initialized using '' @ how @ '' authentication'')],
           Inr \<lparr>obj = c, server_name = sname\<rparr>)
      | Inl e \<Rightarrow>
          ([Construct kw,
            Log EXCEPTION (''Failed to initialize GitGuardian client with '' @ how @ '' auth: ''
                           @ exn_str e)],
           Inl e))"

text \<open>The \<^verbatim>\<open>else\<close> branch of \<^verbatim>\<open>if api_key:\<close>, taken for \<^verbatim>\<open>None\<close> and for the empty string.\<close>

definition key_not_set :: "gg_event list \<times> (py_exn + 'c client)" where
  "key_not_set =
     ([Log ERROR ''GITGUARDIAN_API_KEY environment variable is not set''],
      Inl (ValueError missing_key_msg))"

definition token_auth ::
  "(kwargs \<Rightarrow> py_exn + 'c) \<Rightarrow> environ \<Rightarrow> string option \<Rightarrow> string option \<Rightarrow>
     gg_event list \<times> (py_exn + 'c client)" where
  "token_auth GitGuardianClient env url sname =
     (case env ''GITGUARDIAN_API_KEY'' of
        None \<Rightarrow> key_not_set
      | Some k \<Rightarrow>
          if k \<noteq> [] then
            (let (evs, r) = construct_client GitGuardianClient
                   \<lparr>api_key = Some k, api_url = url, use_oauth = None\<rparr> sname ''token''
             in ([Log DEBUG ''GITGUARDIAN_API_KEY environment variable is set'',
                  Log DEBUG (''API key starts with: '' @ key_preview k)] @ evs, r))
          else key_not_set)"

definition web_auth ::
  "(kwargs \<Rightarrow> py_exn + 'c) \<Rightarrow> string option \<Rightarrow> string option \<Rightarrow>
     gg_event list \<times> (py_exn + 'c client)" where
  "web_auth GitGuardianClient url sname =
     (let (evs, r) = construct_client GitGuardianClient
            \<lparr>api_key = None, api_url = url, use_oauth = Some True\<rparr> sname ''OAuth''
      in ([Log DEBUG ''Using web-based OAuth authentication''] @ evs, r))"

text \<open>
  \<^verbatim>\<open>get_gitguardian_client(server_name)\<close>: the result is the list of log lines and
  constructor calls, in order, and either the raised exception or the client.
\<close>

definition get_gitguardian_client ::
  "(kwargs \<Rightarrow> py_exn + 'c) \<Rightarrow> environ \<Rightarrow> string option \<Rightarrow>
     gg_event list \<times> (py_exn + 'c client)" where
  "get_gitguardian_client GitGuardianClient env sname =
     (let auth_method = auth_method_of env;
          url = env ''GITGUARDIAN_API_URL'';
          log0 = [Log DEBUG ''Attempting to initialize GitGuardian client'', log_api_url url];
          (evs, r) =
            (if auth_method = ''token'' then token_auth GitGuardianClient env url sname
             else if auth_method = ''web'' then web_auth GitGuardianClient url sname
             else ([Log ERROR (''Unsupported authentication method: '' @ auth_method)],
                   Inl (ValueError (unsupported_msg auth_method))))
      in (log0 @ evs, r))"

section \<open>The release scripts: the world they run in\<close>

text \<open>
  Both scripts talk to the outside: they start external commands, read the operator's
  answers, read \<^verbatim>\<open>server.json\<close>, change directory and delete \<^verbatim>\<open>dist\<close>. What the outside
  answers is a \<open>world\<close>; what the script does to it is recorded, in order, in the \<open>trace\<close>
  of the \<open>state\<close>, which also holds the lines still to be read from standard input.
  \<^verbatim>\<open>print\<close> writes to standard output only and is left out.
\<close>

datatype json =
    JNull
  | JBool bool
  | JInt int
  | JFloat real
  | JStr string
  | JArr "json list"
  | JObj "(string \<times> json) list"

datatype event =
    Chdir
  | Rmtree string
  | Run "string list" int
  | Prompt string

record world =
  argv :: "string list"
  environ :: environ
  subprocess_run :: "string list \<Rightarrow> environ \<Rightarrow> int \<times> string \<times> string"
  server_json_exists :: bool
  server_json :: "py_exn + json"
  dist_exists :: bool
  py_format :: "json \<Rightarrow> string"

text \<open>
  \<^item> \<open>subprocess_run w cmd env\<close>: return code, standard output and standard error of
    \<^verbatim>\<open>subprocess.run(cmd)\<close> in the environment \<open>env\<close>;
  \<^item> \<open>server_json w\<close>: what \<^verbatim>\<open>json.load(open("server.json"))\<close> gives, the parsed value or
    the exception (\<open>OSError\<close>, \<open>JSONDecodeError\<close>); \<^verbatim>\<open>None\<close> is \<open>JNull\<close>;
  \<^item> \<open>py_format w v\<close>: the text of \<open>v\<close> inside an f-string.
\<close>

record state =
  stdin :: "string list"
  trace :: "event list"

definition emit :: "event \<Rightarrow> state \<Rightarrow> state" where
  "emit e s = s\<lparr>trace := trace s @ [e]\<rparr>"

text \<open>\<^verbatim>\<open>input(prompt)\<close>: the next line of standard input, \<^verbatim>\<open>EOFError\<close> when there is none.\<close>

definition input :: "string \<Rightarrow> state \<Rightarrow> (py_exn + string) \<times> state" where
  "input prompt s =
     (case stdin s of
        [] \<Rightarrow> (Inl EOFError, emit (Prompt prompt) s)
      | l # ls \<Rightarrow> (Inr l, emit (Prompt prompt) (s\<lparr>stdin := ls\<rparr>)))"

text \<open>\<^verbatim>\<open>sys.exit(main())\<close>: an exception that leaves \<^verbatim>\<open>main\<close> ends the process with status 1.\<close>

definition sys_exit :: "py_exn + int \<Rightarrow> int" where
  "sys_exit r = (case r of Inl e \<Rightarrow> 1 | Inr n \<Rightarrow> n)"

fun bindE :: "py_exn + 'a \<Rightarrow> ('a \<Rightarrow> py_exn + 'b) \<Rightarrow> py_exn + 'b" where
  "bindE (Inl e) f = Inl e"
| "bindE (Inr x) f = f x"

section \<open>Python operations on parsed JSON\<close>

text \<open>\<^verbatim>\<open>field in config\<close>: key of a dict, element of a list, substring of a string.\<close>

fun py_in :: "string \<Rightarrow> json \<Rightarrow> py_exn + bool" where
  "py_in k (JObj kvs) = Inr (k \<in> set (map fst kvs))"
| "py_in k (JArr xs) = Inr (JStr k \<in> set xs)"
| "py_in k (JStr t) = Inr (sublist k t)"
| "py_in k _ = Inl TypeError"

text \<open>\<^verbatim>\<open>config[key]\<close> for a string \<open>key\<close>.\<close>

fun py_getitem :: "json \<Rightarrow> string \<Rightarrow> py_exn + json" where
  "py_getitem (JObj kvs) k = (case map_of kvs k of None \<Rightarrow> Inl KeyError | Some v \<Rightarrow> Inr v)"
| "py_getitem _ k = Inl TypeError"

text \<open>\<^verbatim>\<open>x[0]\<close>; the keys of a parsed JSON object are strings, so \<open>0\<close> is never one.\<close>

fun py_getitem0 :: "json \<Rightarrow> py_exn + json" where
  "py_getitem0 (JArr []) = Inl IndexError"
| "py_getitem0 (JArr (x # xs)) = Inr x"
| "py_getitem0 (JStr []) = Inl IndexError"
| "py_getitem0 (JStr (c # cs)) = Inr (JStr [c])"
| "py_getitem0 (JObj kvs) = Inl KeyError"
| "py_getitem0 _ = Inl TypeError"

text \<open>\<^verbatim>\<open>x.get(key)\<close>: only a dict has it.\<close>

fun py_get :: "json \<Rightarrow> string \<Rightarrow> py_exn + json" where
  "py_get (JObj kvs) k = Inr (case map_of kvs k of None \<Rightarrow> JNull | Some v \<Rightarrow> v)"
| "py_get _ k = Inl AttributeError"

fun truthy :: "json \<Rightarrow> bool" where
  "truthy JNull = False"
| "truthy (JBool b) = b"
| "truthy (JInt n) = (n \<noteq> 0)"
| "truthy (JFloat x) = (x \<noteq> 0)"
| "truthy (JStr t) = (t \<noteq> [])"
| "truthy (JArr xs) = (xs \<noteq> [])"
| "truthy (JObj kvs) = (kvs \<noteq> [])"

section \<open>scripts/publish\_to\_mcp\_registry.py\<close>

definition run_command_mcp ::
  "world \<Rightarrow> string list \<Rightarrow> bool \<Rightarrow> state \<Rightarrow> (int \<times> string \<times> string) \<times> state" where
  "run_command_mcp w cmd capture s =
     (let (rc, out, err) = subprocess_run w cmd (environ w);
          s' = emit (Run cmd rc) s
      in if capture then ((rc, out, err), s') else ((rc, [], []), s'))"

definition check_prerequisites_mcp :: "world \<Rightarrow> state \<Rightarrow> bool \<times> state" where
  "check_prerequisites_mcp w s =
     (let ((returncode, out, err), s1) = run_command_mcp w [''which'', ''mcp-publisher''] True s
      in if returncode \<noteq> 0 then (False, s1)
         else
           (let ((returncode2, out2, err2), s2) =
                  run_command_mcp w [''mcp-publisher'', ''--version''] True s1
            in if \<not> server_json_exists w then (False, s2) else (True, s2)))"

definition required_fields :: "string list" where
  "required_fields = [''name'', ''description'', ''version'', ''packages'']"

text \<open>
  The loop over the required fields: \<open>Inr False\<close> is the early \<^verbatim>\<open>return False\<close>,
  \<open>Inr True\<close> the loop running to its end.
\<close>

fun check_required :: "string list \<Rightarrow> json \<Rightarrow> py_exn + bool" where
  "check_required [] config = Inr True"
| "check_required (field # rest) config =
     (case py_in field config of
        Inl e \<Rightarrow> Inl e
      | Inr present \<Rightarrow> if \<not> present then Inr False else check_required rest config)"

text \<open>The three lookups of the lines printed under \<^verbatim>\<open>Configuration:\<close>.\<close>

definition display_configuration :: "json \<Rightarrow> py_exn + unit" where
  "display_configuration config =
     bindE (py_getitem config ''name'') (\<lambda>_.
     bindE (py_getitem config ''description'') (\<lambda>_.
     bindE (py_getitem config ''version'') (\<lambda>_. Inr ())))"

definition curl_cmd :: "string \<Rightarrow> string list" where
  "curl_cmd identifier =
     [''curl'', ''-s'', ''-o'', ''/dev/null'', ''-w'', ''%{http_code}'',
      ''https://pypi.org/pypi/'' @ identifier @ ''/json'']"

text \<open>The body of \<^verbatim>\<open>if config.get("packages"):\<close>.\<close>

definition show_package :: "world \<Rightarrow> json \<Rightarrow> state \<Rightarrow> (py_exn + bool) \<times> state" where
  "show_package w config s =
     (case bindE (py_getitem config ''packages'') py_getitem0 of
        Inl e \<Rightarrow> (Inl e, s)
      | Inr package \<Rightarrow>
          (case bindE (py_get package ''registryType'') (\<lambda>_.
                bindE (py_get package ''identifier'') (\<lambda>_.
                bindE (py_get package ''version'') (\<lambda>_.
                py_get package ''registryType''))) of
             Inl e \<Rightarrow> (Inl e, s)
           | Inr registry \<Rightarrow>
               if registry = JStr ''pypi'' then
                 (case py_get package ''identifier'' of
                    Inl e \<Rightarrow> (Inl e, s)
                  | Inr identifier \<Rightarrow>
                      (let ((returncode, out, err), s1) =
                             run_command_mcp w (curl_cmd (py_format w identifier)) True s
                       in (Inr True, s1)))
               else (Inr True, s)))"

text \<open>The \<^verbatim>\<open>try\<close> block of \<^verbatim>\<open>validate_server_json\<close>, once the file is parsed.\<close>

definition validate_body :: "world \<Rightarrow> json \<Rightarrow> state \<Rightarrow> (py_exn + bool) \<times> state" where
  "validate_body w config s =
     (case check_required required_fields config of
        Inl e \<Rightarrow> (Inl e, s)
      | Inr all_present \<Rightarrow>
          if \<not> all_present then (Inr False, s)
          else
            (case bindE (display_configuration config) (\<lambda>_. py_get config ''packages'') of
               Inl e \<Rightarrow> (Inl e, s)
             | Inr packages \<Rightarrow>
                 if truthy packages then show_package w config s else (Inr True, s)))"

text \<open>Both \<^verbatim>\<open>except\<close> clauses return \<^verbatim>\<open>False\<close>.\<close>

definition validate_server_json :: "world \<Rightarrow> state \<Rightarrow> bool \<times> state" where
  "validate_server_json w s =
     (case server_json w of
        Inl e \<Rightarrow> (False, s)
      | Inr config \<Rightarrow>
          (case validate_body w config s of
             (Inl e, s1) \<Rightarrow> (False, s1)
           | (Inr ok, s1) \<Rightarrow> (ok, s1)))"

definition check_github_auth :: "world \<Rightarrow> state \<Rightarrow> bool \<times> state" where
  "check_github_auth w s = (True, s)"

definition login_cmd :: "string list" where
  "login_cmd = [''mcp-publisher'', ''login'', ''github'']"

definition publish_cmd :: "string list" where
  "publish_cmd = [''mcp-publisher'', ''publish'']"

definition login_github :: "world \<Rightarrow> state \<Rightarrow> (py_exn + bool) \<times> state" where
  "login_github w s =
     (case input ''Continue with GitHub login? [y/N]: '' s of
        (Inl e, s1) \<Rightarrow> (Inl e, s1)
      | (Inr response, s1) \<Rightarrow>
          if lower (strip response) \<noteq> ''y'' then (Inr False, s1)
          else
            (let ((returncode, out, err), s2) = run_command_mcp w login_cmd False s1
             in if returncode \<noteq> 0 then (Inr False, s2) else (Inr True, s2)))"

definition publish_to_registry :: "world \<Rightarrow> bool \<Rightarrow> state \<Rightarrow> bool \<times> state" where
  "publish_to_registry w dry_run s =
     (if dry_run then (True, s)
      else
        (let ((returncode, out, err), s1) = run_command_mcp w publish_cmd False s
         in if returncode \<noteq> 0 then (False, s1) else (True, s1)))"

definition dry_run_of :: "world \<Rightarrow> bool" where
  "dry_run_of w = (''--dry-run'' \<in> set (argv w) \<or> ''-d'' \<in> set (argv w))"

text \<open>\<^verbatim>\<open>main\<close> from the login step on: a failed or skipped login only prints a warning.\<close>

definition login_and_publish :: "world \<Rightarrow> bool \<Rightarrow> state \<Rightarrow> (py_exn + int) \<times> state" where
  "login_and_publish w dry_run s =
     (case (if \<not> dry_run then login_github w s else (Inr True, s)) of
        (Inl e, s1) \<Rightarrow> (Inl e, s1)
      | (Inr logged_in, s1) \<Rightarrow>
          (let (published, s2) = publish_to_registry w dry_run s1
           in if \<not> published then (Inr 1, s2) else (Inr 0, s2)))"

text \<open>\<^verbatim>\<open>main\<close> from the confirmation on.\<close>

definition confirm_and_publish :: "world \<Rightarrow> bool \<Rightarrow> state \<Rightarrow> (py_exn + int) \<times> state" where
  "confirm_and_publish w dry_run s =
     (if \<not> dry_run then
        (case input (CHR 0x0A # ''Continue with publication? [y/N]: '') s of
           (Inl e, s1) \<Rightarrow> (Inl e, s1)
         | (Inr response, s1) \<Rightarrow>
             if lower (strip response) \<noteq> ''y'' then (Inr 0, s1)
             else login_and_publish w dry_run s1)
      else login_and_publish w dry_run s)"

definition main_mcp :: "world \<Rightarrow> state \<Rightarrow> (py_exn + int) \<times> state" where
  "main_mcp w s =
     (let dry_run = dry_run_of w;
          s0 = emit Chdir s;
          (ok1, s1) = check_prerequisites_mcp w s0
      in if \<not> ok1 then (Inr 1, s1)
         else
           (let (ok2, s2) = validate_server_json w s1
            in if \<not> ok2 then (Inr 1, s2)
               else
                 (let (ok3, s3) = check_github_auth w s2
                  in if \<not> ok3 then (Inr 1, s3)
                     else confirm_and_publish w dry_run s3)))"

section \<open>scripts/publish\_to\_pypi.py\<close>

definition run_command_pypi ::
  "world \<Rightarrow> string list \<Rightarrow> state \<Rightarrow> (int \<times> string \<times> string) \<times> state" where
  "run_command_pypi w cmd s =
     (let (rc, out, err) = subprocess_run w cmd (environ w)
      in ((rc, out, err), emit (Run cmd rc) s))"

definition check_prerequisites_pypi :: "world \<Rightarrow> state \<Rightarrow> bool \<times> state" where
  "check_prerequisites_pypi w s =
     (let ((returncode, out, err), s1) = run_command_pypi w [''which'', ''uv''] s
      in if returncode \<noteq> 0 then (False, s1) else (True, s1))"

definition clean_dist :: "world \<Rightarrow> state \<Rightarrow> state" where
  "clean_dist w s = (if dist_exists w then emit (Rmtree ''dist'') s else s)"

definition build_package :: "world \<Rightarrow> state \<Rightarrow> bool \<times> state" where
  "build_package w s =
     (let ((returncode, out, err), s1) = run_command_pypi w [''uv'', ''build''] s
      in if returncode \<noteq> 0 then (False, s1) else (True, s1))"

definition upload_cmd :: "bool \<Rightarrow> string list" where
  "upload_cmd test =
     [''uv'', ''run'', ''twine'', ''upload'']
     @ (if test then [''--repository'', ''testpypi''] else [])
     @ [''dist/*'']"

definition registry_name :: "bool \<Rightarrow> string" where
  "registry_name test = (if test then ''TestPyPI'' else ''PyPI'')"

text \<open>The upload itself, with the token in the environment of \<^verbatim>\<open>twine\<close>.\<close>

definition run_upload :: "world \<Rightarrow> bool \<Rightarrow> string \<Rightarrow> state \<Rightarrow> (py_exn + bool) \<times> state" where
  "run_upload w test token s =
     (let cmd = upload_cmd test;
          env = (environ w)(''TWINE_USERNAME'' \<mapsto> ''__token__'', ''TWINE_PASSWORD'' \<mapsto> token);
          (returncode, out, err) = subprocess_run w cmd env;
          s1 = emit (Run cmd returncode) s
      in if returncode \<noteq> 0 then (Inr False, s1) else (Inr True, s1))"

text \<open>The body of \<^verbatim>\<open>if not token:\<close>: ask for the token, give up on an empty answer.\<close>

definition ask_token_and_upload :: "world \<Rightarrow> bool \<Rightarrow> state \<Rightarrow> (py_exn + bool) \<times> state" where
  "ask_token_and_upload w test s =
     (case input (''Enter your '' @ registry_name test @ '' API token: '') s of
        (Inl e, s1) \<Rightarrow> (Inl e, s1)
      | (Inr answer, s1) \<Rightarrow>
          (let token = strip answer
           in if token = [] then (Inr False, s1) else run_upload w test token s1))"

definition upload_to_pypi :: "world \<Rightarrow> bool \<Rightarrow> state \<Rightarrow> (py_exn + bool) \<times> state" where
  "upload_to_pypi w test s =
     (case environ w (if \<not> test then ''PYPI_TOKEN'' else ''TEST_PYPI_TOKEN'') of
        None \<Rightarrow> ask_token_and_upload w test s
      | Some token \<Rightarrow>
          if token = [] then ask_token_and_upload w test s else run_upload w test token s)"

definition test_mode_of :: "world \<Rightarrow> bool" where
  "test_mode_of w = (''--test'' \<in> set (argv w) \<or> ''-t'' \<in> set (argv w))"

text \<open>\<^verbatim>\<open>main\<close> from the confirmation on.\<close>

definition confirm_and_upload :: "world \<Rightarrow> bool \<Rightarrow> state \<Rightarrow> (py_exn + int) \<times> state" where
  "confirm_and_upload w test_mode s =
     (case input ''Continue? [y/N]: '' s of
        (Inl e, s1) \<Rightarrow> (Inl e, s1)
      | (Inr response, s1) \<Rightarrow>
          if lower (strip response) \<noteq> ''y'' then (Inr 0, s1)
          else
            (case upload_to_pypi w test_mode s1 of
               (Inl e, s2) \<Rightarrow> (Inl e, s2)
             | (Inr uploaded, s2) \<Rightarrow> if \<not> uploaded then (Inr 1, s2) else (Inr 0, s2)))"

definition main_pypi :: "world \<Rightarrow> state \<Rightarrow> (py_exn + int) \<times> state" where
  "main_pypi w s =
     (let test_mode = test_mode_of w;
          (ok1, s1) = check_prerequisites_pypi w s
      in if \<not> ok1 then (Inr 1, s1)
         else
           (let s2 = clean_dist w (emit Chdir s1);
                (ok2, s3) = build_package w s2
            in if \<not> ok2 then (Inr 1, s3)
               else confirm_and_upload w test_mode s3))"

section \<open>Concrete inputs\<close>

text \<open>
  Two constructors to run the factory with: one returns the keyword arguments it was
  called with as the client object, one raises.
\<close>

definition ctor_ok :: "kwargs \<Rightarrow> py_exn + kwargs" where
  "ctor_ok kw = Inr kw"

definition ctor_failing :: "kwargs \<Rightarrow> py_exn + kwargs" where
  "ctor_failing kw = Inl (Exception ''connection refused'')"

text \<open>
  A world for the release scripts: a manifest with one PyPI package, every external
  command succeeding, nothing in the environment. \<open>fmt\<close> formats a string as itself,
  which is all the sample worlds format. Variants are record updates of it.
\<close>

definition manifest :: json where
  "manifest = JObj
     [(''name'', JStr ''io.github.GitGuardian/gg-mcp''),
      (''description'', JStr ''GitGuardian MCP server''),
      (''version'', JStr ''0.5.0''),
      (''packages'',
         JArr [JObj [(''registryType'', JStr ''pypi''), (''identifier'', JStr ''gg-mcp''),
                     (''version'', JStr ''0.5.0'')]])]"

definition fmt :: "json \<Rightarrow> string" where
  "fmt v = (case v of JStr t \<Rightarrow> t | _ \<Rightarrow> ''None'')"

definition all_succeed :: "string list \<Rightarrow> environ \<Rightarrow> int \<times> string \<times> string" where
  "all_succeed cmd env = (0, [], [])"

definition all_fail :: "string list \<Rightarrow> environ \<Rightarrow> int \<times> string \<times> string" where
  "all_fail cmd env = (7, [], ''failed'')"

definition login_fails :: "string list \<Rightarrow> environ \<Rightarrow> int \<times> string \<times> string" where
  "login_fails cmd env = (if cmd = login_cmd then (1, [], []) else (0, [], []))"

definition upload_fails :: "string list \<Rightarrow> environ \<Rightarrow> int \<times> string \<times> string" where
  "upload_fails cmd env = (if cmd = upload_cmd True then (1, [], ''403 Forbidden'') else (0, [], []))"

definition sample_world :: world where
  "sample_world =
     \<lparr>argv = [''script.py''], environ = Map.empty, subprocess_run = all_succeed,
      server_json_exists = True, server_json = Inr manifest, dist_exists = True,
      py_format = fmt\<rparr>"

definition operator_types :: "string list \<Rightarrow> state" where
  "operator_types ls = \<lparr>stdin = ls, trace = []\<rparr>"

text \<open>Only the two commands that decide the exit status of the registry script succeed.\<close>

definition only_gates_succeed :: "string list \<Rightarrow> environ \<Rightarrow> int \<times> string \<times> string" where
  "only_gates_succeed cmd env =
     (if cmd = [''which'', ''mcp-publisher''] \<or> cmd = publish_cmd then (0, [], [])
      else (1, [], []))"


definition test_mode_world :: world where
  "test_mode_world =
     sample_world\<lparr>argv := [''publish_to_pypi.py'', ''--test''],
                  environ := [''TEST_PYPI_TOKEN'' \<mapsto> ''pypi-secret'']\<rparr>"

section \<open>The client factory: properties\<close>



lemma snd_construct_ok:
  "G kw = Inr c \<Longrightarrow> snd (construct_client G kw sn how) = Inr \<lparr>obj = c, server_name = sn\<rparr>"
  by (simp add: construct_client_def)

lemma snd_get_token:
  "auth_method_of env = ''token'' \<Longrightarrow>
   snd (get_gitguardian_client G env sn) = snd (token_auth G env (env ''GITGUARDIAN_API_URL'') sn)"
  by (simp add: get_gitguardian_client_def auth_method_of_def Let_def split: prod.splits)

lemma snd_get_web:
  "auth_method_of env = ''web'' \<Longrightarrow>
   snd (get_gitguardian_client G env sn) = snd (web_auth G (env ''GITGUARDIAN_API_URL'') sn)"
  by (simp add: get_gitguardian_client_def auth_method_of_def Let_def split: prod.splits)

lemma construct_never_empty_key:
  "Construct kw \<in> set (fst (get_gitguardian_client G env sn)) \<Longrightarrow> api_key kw \<noteq> Some []"
  by (auto simp: get_gitguardian_client_def Let_def token_auth_def web_auth_def key_not_set_def
      log_api_url_def split_beta construct_client_def
      split: if_splits option.splits sum.splits)

text \<open>
  C1, as the code has it. With the method \<open>token\<close> (in any letter case) and no
  \<^verbatim>\<open>GITGUARDIAN_API_KEY\<close> in the environment, the factory raises the \<^verbatim>\<open>ValueError\<close> of the
  missing key, whatever the server name. With a key that is set and not empty, and a
  constructor that returns an object for that key, the factory returns that object
  with the server name set on it.
\<close>

theorem C1_token_auth:
  assumes "auth_method_of env = ''token''"
  shows "(env ''GITGUARDIAN_API_KEY'' = None \<longrightarrow>
            snd (get_gitguardian_client G env sn) = Inl (ValueError missing_key_msg)) \<and>
         (\<forall>k c. env ''GITGUARDIAN_API_KEY'' = Some k \<and> k \<noteq> [] \<and>
                 G \<lparr>api_key = Some k, api_url = env ''GITGUARDIAN_API_URL'', use_oauth = None\<rparr>
                   = Inr c \<longrightarrow>
            snd (get_gitguardian_client G env sn) = Inr \<lparr>obj = c, server_name = sn\<rparr>)"
  using assms
  by (auto simp: snd_get_token token_auth_def key_not_set_def snd_construct_ok split_beta)

theorem C1_token_auth_witness:
  "snd (get_gitguardian_client ctor_ok [''GITGUARDIAN_AUTH_METHOD'' \<mapsto> ''token''] (Some ''srv''))
     = Inl (ValueError missing_key_msg) \<and>
   snd (get_gitguardian_client ctor_ok
          [''GITGUARDIAN_AUTH_METHOD'' \<mapsto> ''token'', ''GITGUARDIAN_API_KEY'' \<mapsto> ''abcdef'']
          (Some ''srv''))
     = Inr \<lparr>obj = \<lparr>api_key = Some ''abcdef'', api_url = None, use_oauth = None\<rparr>,
            server_name = Some ''srv''\<rparr>"
proof -
  have m1: "auth_method_of [''GITGUARDIAN_AUTH_METHOD'' \<mapsto> ''token''] = ''token''"
    by code_simp
  have m2: "auth_method_of
      [''GITGUARDIAN_AUTH_METHOD'' \<mapsto> ''token'', ''GITGUARDIAN_API_KEY'' \<mapsto> ''abcdef''] = ''token''"
    by code_simp
  show ?thesis
    using C1_token_auth [OF m1, of ctor_ok "Some ''srv''"]
          C1_token_auth [OF m2, of ctor_ok "Some ''srv''"]
    by (simp add: ctor_ok_def)
qed

text \<open>
  C1 as stated fails: a key that is present but empty raises the same \<^verbatim>\<open>ValueError\<close>, and
  with a key that is present and not empty an exception of the constructor leaves the
  factory unchanged.
\<close>

theorem C1_counterexample:
  "snd (get_gitguardian_client ctor_ok
          [''GITGUARDIAN_AUTH_METHOD'' \<mapsto> ''token'', ''GITGUARDIAN_API_KEY'' \<mapsto> []]
          (Some ''srv'')) = Inl (ValueError missing_key_msg) \<and>
   snd (get_gitguardian_client ctor_failing
          [''GITGUARDIAN_AUTH_METHOD'' \<mapsto> ''token'', ''GITGUARDIAN_API_KEY'' \<mapsto> ''abcdef'']
          (Some ''srv'')) = Inl (Exception ''connection refused'')"
  by code_simp




text \<open>
  C6. With the method \<open>web\<close> (the default when the selector is not set), whenever the
  constructor returns an object for \<^verbatim>\<open>api_key=None, use_oauth=True\<close> and the configured
  URL, the factory returns that object with the server name set on it, whether
  \<^verbatim>\<open>GITGUARDIAN_API_KEY\<close> is unset or set to any value.
\<close>

theorem C6_web_auth:
  assumes "auth_method_of env = ''web''"
    and "G \<lparr>api_key = None, api_url = env ''GITGUARDIAN_API_URL'', use_oauth = Some True\<rparr> = Inr c"
  shows "snd (get_gitguardian_client G (env(''GITGUARDIAN_API_KEY'' := key)) sn) =
           Inr \<lparr>obj = c, server_name = sn\<rparr>"
proof -
  let ?env = "env(''GITGUARDIAN_API_KEY'' := key)"
  have "auth_method_of ?env = ''web''"
    using assms(1) by (simp add: auth_method_of_def environ_get_def)
  then have "snd (get_gitguardian_client G ?env sn) =
             snd (web_auth G (?env ''GITGUARDIAN_API_URL'') sn)"
    by (rule snd_get_web)
  also have "\<dots> = Inr \<lparr>obj = c, server_name = sn\<rparr>"
    using assms(2) by (simp add: web_auth_def split_beta snd_construct_ok)
  finally show ?thesis .
qed

theorem C6_web_auth_witness:
  "snd (get_gitguardian_client ctor_ok [''GITGUARDIAN_API_KEY'' \<mapsto> ''abcdef''] (Some ''srv'')) =
     Inr \<lparr>obj = \<lparr>api_key = None, api_url = None, use_oauth = Some True\<rparr>,
          server_name = Some ''srv''\<rparr> \<and>
   snd (get_gitguardian_client ctor_ok Map.empty (Some ''srv'')) =
     Inr \<lparr>obj = \<lparr>api_key = None, api_url = None, use_oauth = Some True\<rparr>,
          server_name = Some ''srv''\<rparr>"
proof -
  have m: "auth_method_of Map.empty = ''web''" by code_simp
  show ?thesis
    using C6_web_auth [where env = Map.empty and G = ctor_ok and key = "Some ''abcdef''"
                         and sn = "Some ''srv''", OF m]
          C6_web_auth [where env = Map.empty and G = ctor_ok and key = None
                         and sn = "Some ''srv''", OF m]
    by (simp add: ctor_ok_def)
qed



text \<open>
  C9. With the method \<open>token\<close>, a \<^verbatim>\<open>GITGUARDIAN_API_KEY\<close> set to the empty string gives the
  same log and the same \<^verbatim>\<open>ValueError\<close> as an unset one, and the constructor is not
  called; in no environment at all is the constructor called with an empty key.
\<close>

theorem C9_empty_key:
  assumes "auth_method_of env = ''token''"
  shows "get_gitguardian_client G (env(''GITGUARDIAN_API_KEY'' \<mapsto> [])) sn =
           get_gitguardian_client G (env(''GITGUARDIAN_API_KEY'' := None)) sn \<and>
         snd (get_gitguardian_client G (env(''GITGUARDIAN_API_KEY'' \<mapsto> [])) sn) =
           Inl (ValueError missing_key_msg) \<and>
         (\<forall>kw. Construct kw \<notin> set (fst (get_gitguardian_client G
                                            (env(''GITGUARDIAN_API_KEY'' \<mapsto> [])) sn))) \<and>
         (\<forall>env' sn' kw. Construct kw \<in> set (fst (get_gitguardian_client G env' sn'))
                          \<longrightarrow> api_key kw \<noteq> Some [])"
proof -
  have "get_gitguardian_client G (env(''GITGUARDIAN_API_KEY'' \<mapsto> [])) sn =
           get_gitguardian_client G (env(''GITGUARDIAN_API_KEY'' := None)) sn \<and>
         snd (get_gitguardian_client G (env(''GITGUARDIAN_API_KEY'' \<mapsto> [])) sn) =
           Inl (ValueError missing_key_msg) \<and>
         (\<forall>kw. Construct kw \<notin> set (fst (get_gitguardian_client G
                                            (env(''GITGUARDIAN_API_KEY'' \<mapsto> [])) sn)))"
    using assms
    by (simp add: get_gitguardian_client_def auth_method_of_def environ_get_def Let_def
        token_auth_def key_not_set_def log_api_url_def split: option.splits)
  then show ?thesis
    using construct_never_empty_key by blast
qed

theorem C9_empty_key_witness:
  "get_gitguardian_client ctor_ok
      [''GITGUARDIAN_AUTH_METHOD'' \<mapsto> ''token'', ''GITGUARDIAN_API_KEY'' \<mapsto> []] None =
     ([Log DEBUG ''Attempting to initialize GitGuardian client'',
       Log DEBUG ''GITGUARDIAN_API_URL not set, will use default'',
       Log ERROR ''GITGUARDIAN_API_KEY environment variable is not set''],
      Inl (ValueError
             ''GITGUARDIAN_API_KEY environment variable must be set for token authentication''))"
proof -
  have m: "auth_method_of [''GITGUARDIAN_AUTH_METHOD'' \<mapsto> ''token''] = ''token''"
    by code_simp
  have "get_gitguardian_client ctor_ok [''GITGUARDIAN_AUTH_METHOD'' \<mapsto> ''token''] None =
     ([Log DEBUG ''Attempting to initialize GitGuardian client'',
       Log DEBUG ''GITGUARDIAN_API_URL not set, will use default'',
       Log ERROR ''GITGUARDIAN_API_KEY environment variable is not set''],
      Inl (ValueError
             ''GITGUARDIAN_API_KEY environment variable must be set for token authentication''))"
    by code_simp
  then show ?thesis
    using C9_empty_key [OF m, of ctor_ok None] by simp
qed

section \<open>Manifest validation: properties\<close>

lemma trace_emit: "trace (emit e s) = trace s @ [e]"
  by (simp add: emit_def)

lemma stdin_emit: "stdin (emit e s) = stdin s"
  by (simp add: emit_def)








lemma snd_validate_server_json:
  "snd (validate_server_json w s) = s \<or>
   (\<exists>identifier rc. snd (validate_server_json w s) = emit (Run (curl_cmd identifier) rc) s)"
  by (auto simp: validate_server_json_def validate_body_def show_package_def run_command_mcp_def
      split_beta Let_def split: sum.splits prod.splits if_splits)


lemma check_prerequisites_mcp_eq:
  "check_prerequisites_mcp w s =
     (let rc = fst (subprocess_run w [''which'', ''mcp-publisher''] (environ w));
          rc2 = fst (subprocess_run w [''mcp-publisher'', ''--version''] (environ w))
      in if rc \<noteq> 0 then (False, emit (Run [''which'', ''mcp-publisher''] rc) s)
         else (server_json_exists w,
               emit (Run [''mcp-publisher'', ''--version''] rc2)
                 (emit (Run [''which'', ''mcp-publisher''] rc) s)))"
  by (simp add: check_prerequisites_mcp_def run_command_mcp_def split_beta Let_def)






section \<open>The release scripts: properties\<close>

lemma check_prerequisites_pypi_eq:
  "check_prerequisites_pypi w s =
     (fst (subprocess_run w [''which'', ''uv''] (environ w)) = 0,
      emit (Run [''which'', ''uv''] (fst (subprocess_run w [''which'', ''uv''] (environ w)))) s)"
  by (simp add: check_prerequisites_pypi_def run_command_pypi_def split_beta)

lemma build_package_eq:
  "build_package w s =
     (fst (subprocess_run w [''uv'', ''build''] (environ w)) = 0,
      emit (Run [''uv'', ''build''] (fst (subprocess_run w [''uv'', ''build''] (environ w)))) s)"
  by (simp add: build_package_def run_command_pypi_def split_beta)

lemma trace_clean_dist:
  "trace (clean_dist w s) = trace s @ (if dist_exists w then [Rmtree ''dist''] else [])"
  by (simp add: clean_dist_def trace_emit)

lemma stdin_clean_dist: "stdin (clean_dist w s) = stdin s"
  by (simp add: clean_dist_def stdin_emit)


lemma trace_validate:
  "trace (snd (validate_server_json w s)) = trace s \<or>
   (\<exists>identifier rc. trace (snd (validate_server_json w s)) =
                      trace s @ [Run (curl_cmd identifier) rc])"
  using snd_validate_server_json [of w s] by (auto simp: trace_emit)



lemma pypi_nonzero:
  assumes "Run cmd rc \<in> set (trace (snd (main_pypi w s)))"
    and "Run cmd rc \<notin> set (trace s)" and "rc \<noteq> 0"
  shows "sys_exit (fst (main_pypi w s)) = 1"
  using assms
  by (auto simp: main_pypi_def check_prerequisites_pypi_eq build_package_eq Let_def
      confirm_and_upload_def upload_to_pypi_def ask_token_and_upload_def run_upload_def
      input_def sys_exit_def stdin_emit stdin_clean_dist trace_emit trace_clean_dist split_beta
      split: list.splits option.splits if_splits)

lemma confirm_and_publish_which:
  "Run [''which'', ''mcp-publisher''] rc \<in> set (trace (snd (confirm_and_publish w d s))) \<Longrightarrow>
   Run [''which'', ''mcp-publisher''] rc \<in> set (trace s)"
  by (auto simp: confirm_and_publish_def login_and_publish_def login_github_def
      publish_to_registry_def run_command_mcp_def input_def trace_emit stdin_emit split_beta
      Let_def login_cmd_def publish_cmd_def
      split: list.splits if_splits)

lemma confirm_and_publish_nonzero:
  "Run publish_cmd rc \<in> set (trace (snd (confirm_and_publish w d s))) \<Longrightarrow>
   Run publish_cmd rc \<notin> set (trace s) \<Longrightarrow> rc \<noteq> 0 \<Longrightarrow>
   fst (confirm_and_publish w d s) = Inr 1"
  by (auto simp: confirm_and_publish_def login_and_publish_def login_github_def
      publish_to_registry_def run_command_mcp_def input_def trace_emit stdin_emit split_beta
      Let_def login_cmd_def publish_cmd_def
      split: list.splits if_splits)

lemma mcp_nonzero:
  assumes "Run cmd rc \<in> set (trace (snd (main_mcp w s)))"
    and "Run cmd rc \<notin> set (trace s)" and "rc \<noteq> 0"
    and "cmd = [''which'', ''mcp-publisher''] \<or> cmd = publish_cmd"
  shows "sys_exit (fst (main_mcp w s)) = 1"
proof -
  let ?rcw = "fst (subprocess_run w [''which'', ''mcp-publisher''] (environ w))"
  let ?s1 = "snd (check_prerequisites_mcp w (emit Chdir s))"
  let ?s2 = "snd (validate_server_json w ?s1)"
  show ?thesis
  proof (cases "fst (check_prerequisites_mcp w (emit Chdir s)) \<and> fst (validate_server_json w ?s1)")
    case False
    then show ?thesis
      by (auto simp: main_mcp_def Let_def split_beta sys_exit_def)
  next
    case True
    then have m: "main_mcp w s = confirm_and_publish w (dry_run_of w) ?s2"
      by (simp add: main_mcp_def Let_def split_beta check_github_auth_def)
    have rcw: "?rcw = 0"
      using True by (auto simp: check_prerequisites_mcp_eq Let_def split: if_splits)
    have t1: "trace ?s1 = trace s @ [Chdir, Run [''which'', ''mcp-publisher''] 0,
                      Run [''mcp-publisher'', ''--version'']
                        (fst (subprocess_run w [''mcp-publisher'', ''--version''] (environ w)))]"
      using rcw by (simp add: check_prerequisites_mcp_eq Let_def trace_emit)
    have old: "Run cmd rc \<notin> set (trace ?s2)"
      using trace_validate [of w ?s1] t1 assms(2,3,4)
      by (auto simp: curl_cmd_def publish_cmd_def)
    from assms(4) show ?thesis
    proof
      assume "cmd = [''which'', ''mcp-publisher'']"
      with assms(1) old m confirm_and_publish_which show ?thesis by metis
    next
      assume "cmd = publish_cmd"
      with assms(1,3) old m confirm_and_publish_nonzero [of rc w "dry_run_of w" ?s2]
      show ?thesis by (simp add: sys_exit_def)
    qed
  qed
qed












text \<open>
  C4, as the code has it. In \<^verbatim>\<open>publish_to_pypi\<close> every external command that returns a
  non-zero code makes the exit status 1. In \<^verbatim>\<open>publish_to_mcp_registry\<close> a non-zero code of
  \<^verbatim>\<open>which mcp-publisher\<close> or of \<^verbatim>\<open>mcp-publisher publish\<close> makes the exit status 1.
\<close>

theorem C4_gating_commands:
  "(Run cmd rc \<in> set (trace (snd (main_pypi w (operator_types ls)))) \<and> rc \<noteq> 0
      \<longrightarrow> sys_exit (fst (main_pypi w (operator_types ls))) = 1) \<and>
   (Run cmd rc \<in> set (trace (snd (main_mcp w (operator_types ls)))) \<and> rc \<noteq> 0 \<and>
    (cmd = [''which'', ''mcp-publisher''] \<or> cmd = [''mcp-publisher'', ''publish''])
      \<longrightarrow> sys_exit (fst (main_mcp w (operator_types ls))) = 1)"
proof -
  have t: "Run cmd rc \<notin> set (trace (operator_types ls))"
    by (simp add: operator_types_def)
  show ?thesis
    using pypi_nonzero [OF _ t] mcp_nonzero [OF _ t] by (auto simp: publish_cmd_def)
qed

theorem C4_gating_commands_witness:
  "sys_exit (fst (main_pypi (test_mode_world\<lparr>subprocess_run := upload_fails\<rparr>)
                    (operator_types [''y'']))) = 1 \<and>
   sys_exit (fst (main_mcp (sample_world\<lparr>subprocess_run := all_fail\<rparr>)
                    (operator_types [''y'', ''y'']))) = 1"
proof -
  have m1: "Run [''uv'', ''run'', ''twine'', ''upload'', ''--repository'', ''testpypi'', ''dist/*''] 1
              \<in> set (trace (snd (main_pypi (test_mode_world\<lparr>subprocess_run := upload_fails\<rparr>)
                                    (operator_types [''y'']))))"
    by code_simp
  have m2: "Run [''which'', ''mcp-publisher''] 7
              \<in> set (trace (snd (main_mcp (sample_world\<lparr>subprocess_run := all_fail\<rparr>)
                                    (operator_types [''y'', ''y'']))))"
    by code_simp
  have a1: "sys_exit (fst (main_pypi (test_mode_world\<lparr>subprocess_run := upload_fails\<rparr>)
                    (operator_types [''y'']))) = 1"
    using C4_gating_commands
            [where w = "test_mode_world\<lparr>subprocess_run := upload_fails\<rparr>" and ls = "[''y'']"
               and rc = 1
               and cmd = "[''uv'', ''run'', ''twine'', ''upload'', ''--repository'', ''testpypi'',
                           ''dist/*'']", THEN conjunct1] m1
    by simp
  have a2: "sys_exit (fst (main_mcp (sample_world\<lparr>subprocess_run := all_fail\<rparr>)
                    (operator_types [''y'', ''y'']))) = 1"
    using C4_gating_commands
            [where w = "sample_world\<lparr>subprocess_run := all_fail\<rparr>" and ls = "[''y'', ''y'']"
               and rc = 7 and cmd = "[''which'', ''mcp-publisher'']", THEN conjunct2] m2
    by simp
  from a1 a2 show ?thesis by blast
qed

text \<open>
  C4 as stated fails: here \<^verbatim>\<open>mcp-publisher --version\<close>, the \<^verbatim>\<open>curl\<close> probe and
  \<^verbatim>\<open>mcp-publisher login github\<close> all return 1, and the exit status is 0.
\<close>

theorem C4_counterexample:
  "sys_exit (fst (main_mcp (sample_world\<lparr>subprocess_run := only_gates_succeed\<rparr>)
                    (operator_types [''y'', ''y'']))) = 0 \<and>
   trace (snd (main_mcp (sample_world\<lparr>subprocess_run := only_gates_succeed\<rparr>)
                 (operator_types [''y'', ''y'']))) =
     [Chdir, Run [''which'', ''mcp-publisher''] 0, Run [''mcp-publisher'', ''--version''] 1,
      Run [''curl'', ''-s'', ''-o'', ''/dev/null'', ''-w'', ''%{http_code}'',
           ''https://pypi.org/pypi/gg-mcp/json''] 1,
      Prompt (CHR 0x0A # ''Continue with publication? [y/N]: ''),
      Prompt ''Continue with GitHub login? [y/N]: '',
      Run [''mcp-publisher'', ''login'', ''github''] 1,
      Run [''mcp-publisher'', ''publish''] 0]"
  by code_simp


end
